theory Spec2Isabelle
  imports Main
begin

section \<open>JavaScript values\<close>

text \<open>
  The manifests (\<^verbatim>\<open>package.json\<close> documents) are parsed JSON, and the code inspects them
  with property access, \<^verbatim>\<open>===\<close>, \<^verbatim>\<open>&&\<close>, \<^verbatim>\<open>!\<close> and lodash's \<^verbatim>\<open>isEmpty\<close>.
  A value is therefore a JSON value or \<^verbatim>\<open>undefined\<close> (what reading an absent property
  gives). An object is the list of its own properties, in insertion order, with distinct
  keys. Numbers are integers here: the code only tests a number for being zero and for
  equality, and no claim depends on a fraction.
\<close>

datatype jsval =
    JUndefined
  | JNull
  | JBool bool
  | JNum int
  | JStr string
  | JArr "jsval list"
  | JObj "(string \<times> jsval) list"

type_synonym jsobject = "(string \<times> jsval) list"

text \<open>\<^verbatim>\<open>obj.key\<close> on an object: the own property, or \<^verbatim>\<open>undefined\<close>.\<close>

definition obj_get :: "jsobject \<Rightarrow> string \<Rightarrow> jsval" where
  "obj_get obj k = (case map_of obj k of Some v \<Rightarrow> v | None \<Rightarrow> JUndefined)"

text \<open>
  \<^verbatim>\<open>v.key\<close> on a value that is neither \<^verbatim>\<open>null\<close> nor \<^verbatim>\<open>undefined\<close>: a string, number,
  boolean or array has none of the properties read here (\<^verbatim>\<open>name\<close>, \<^verbatim>\<open>url\<close>).
  On \<^verbatim>\<open>null\<close> and \<^verbatim>\<open>undefined\<close> the access throws; the callers below either exclude
  that case by a truthiness test first or model the throw (\<open>isSamePackage\<close>).
\<close>

fun get_prop :: "jsval \<Rightarrow> string \<Rightarrow> jsval" where
  "get_prop (JObj obj) k = obj_get obj k"
| "get_prop _ k = JUndefined"

text \<open>Truthiness (\<^verbatim>\<open>ToBoolean\<close>).\<close>

fun truthy :: "jsval \<Rightarrow> bool" where
  "truthy JUndefined = False"
| "truthy JNull = False"
| "truthy (JBool b) = b"
| "truthy (JNum n) = (n \<noteq> 0)"
| "truthy (JStr s) = (s \<noteq> [])"
| "truthy (JArr _) = True"
| "truthy (JObj _) = True"

text \<open>\<^verbatim>\<open>a && b\<close>, with \<open>b\<close> already a value (it has no effect where it is used).\<close>

definition js_and :: "jsval \<Rightarrow> jsval \<Rightarrow> jsval" where
  "js_and a b = (if truthy a then b else a)"

text \<open>\<^verbatim>\<open>a || b\<close>, with \<open>b\<close> already a value.\<close>

definition js_or :: "jsval \<Rightarrow> jsval \<Rightarrow> jsval" where
  "js_or a b = (if truthy a then a else b)"

text \<open>
  \<^verbatim>\<open>a === b\<close>. Primitives compare by value. Arrays and objects compare by identity;
  the two operands always come from two separately parsed documents here, so two arrays
  or two objects are never the same one.
\<close>

fun strict_eq :: "jsval \<Rightarrow> jsval \<Rightarrow> bool" where
  "strict_eq JUndefined JUndefined = True"
| "strict_eq JNull JNull = True"
| "strict_eq (JBool a) (JBool b) = (a = b)"
| "strict_eq (JNum a) (JNum b) = (a = b)"
| "strict_eq (JStr a) (JStr b) = (a = b)"
| "strict_eq _ _ = False"

text \<open>lodash \<^verbatim>\<open>isEmpty\<close> on a plain object: it has no own enumerable property.\<close>

definition isEmpty :: "jsobject \<Rightarrow> bool" where
  "isEmpty obj = (obj = [])"

section \<open>Promises, errors, registry client\<close>

text \<open>
  An error object, with the two properties the code's \<^verbatim>\<open>catch\<close> filters read:
  \<^verbatim>\<open>error\<close> (set by the registry client, e.g. \<^verbatim>\<open>'not_found'\<close>) and \<^verbatim>\<open>code\<close>
  (set by the file system, e.g. \<^verbatim>\<open>'ENOENT'\<close>); \<open>None\<close> is an absent property.
\<close>

record js_error =
  err_message :: string
  err_error :: "string option"
  err_code :: "string option"

definition TypeError :: "string \<Rightarrow> js_error" where
  "TypeError msg = \<lparr>err_message = msg, err_error = None, err_code = None\<rparr>"

text \<open>A promise is modelled by the way it settles.\<close>

datatype 'a settled = Fulfilled 'a | Rejected js_error

text \<open>
  A registry maintainer \<^verbatim>\<open>{name, email}\<close>, both optional, and the part of a registry
  document the code reads: \<^verbatim>\<open>data.maintainers\<close>. A document without the property is
  the empty list (lodash casts a missing array to \<^verbatim>\<open>[]\<close>).
\<close>

record maintainer =
  name :: "string option"
  email :: "string option"

record package_data =
  maintainers :: "maintainer list"

text \<open>
  The npm nano client: \<^verbatim>\<open>getAsync\<close> fetches the document of a package and settles
  with it or with an error; \<^verbatim>\<open>config.url\<close> and \<^verbatim>\<open>config.db\<close> give its address.
\<close>

record npm_nano =
  getAsync :: "jsval \<Rightarrow> package_data settled"
  config_url :: string
  config_db :: string

text \<open>The downloaded info: \<^verbatim>\<open>dir\<close>, \<^verbatim>\<open>packageJson\<close>, \<^verbatim>\<open>downloader\<close>.\<close>

record downloaded_info =
  dl_dir :: string
  dl_packageJson :: jsobject
  dl_downloader :: string

text \<open>What the collection pass does besides returning: registry lookups and log lines.\<close>

datatype collect_event =
    GetAsync jsval
  | LogWarn jsobject downloaded_info
  | LogCollectorFailed string js_error

section \<open>lodash \<^verbatim>\<open>intersectionWith\<close>\<close>

text \<open>
  \<^verbatim>\<open>intersectionWith(array, other, comparator)\<close> runs lodash's \<^verbatim>\<open>baseIntersection\<close>:
  it walks \<open>array\<close> while the result is shorter than the shorter of the two arrays, and
  pushes a value that is not yet in the result and is in \<open>other\<close>, both by the comparator
  (\<^verbatim>\<open>arrayIncludesWith(xs, value, comparator)\<close> calls \<^verbatim>\<open>comparator(value, x)\<close>).
\<close>

definition arrayIncludesWith :: "'a list \<Rightarrow> 'a \<Rightarrow> ('a \<Rightarrow> 'a \<Rightarrow> bool) \<Rightarrow> bool" where
  "arrayIncludesWith array v comparator = list_ex (comparator v) array"

fun baseIntersection_loop ::
  "('a \<Rightarrow> 'a \<Rightarrow> bool) \<Rightarrow> 'a list \<Rightarrow> nat \<Rightarrow> 'a list \<Rightarrow> 'a list \<Rightarrow> 'a list" where
  "baseIntersection_loop comparator other maxLength result [] = result"
| "baseIntersection_loop comparator other maxLength result (v # rest) =
     (if length result < maxLength then
        (if \<not> arrayIncludesWith result v comparator \<and> arrayIncludesWith other v comparator
         then baseIntersection_loop comparator other maxLength (result @ [v]) rest
         else baseIntersection_loop comparator other maxLength result rest)
      else result)"

definition intersectionWith :: "'a list \<Rightarrow> 'a list \<Rightarrow> ('a \<Rightarrow> 'a \<Rightarrow> bool) \<Rightarrow> 'a list" where
  "intersectionWith array other comparator =
     baseIntersection_loop comparator other (min (length array) (length other)) [] array"

section \<open>\<^verbatim>\<open>checkRepositoryOwnership\<close> (lib/analyze/collect/index.js)\<close>

text \<open>The comparator of line 46-47.\<close>

definition sameMaintainer :: "maintainer \<Rightarrow> maintainer \<Rightarrow> bool" where
  "sameMaintainer m downloadedMaintainer =
     (name m = name downloadedMaintainer \<or> email m = email downloadedMaintainer)"

text \<open>
  \<^verbatim>\<open>packageJson.repository && packageJson.repository.url\<close>
\<close>

definition repository_url :: "jsobject \<Rightarrow> jsval" where
  "repository_url packageJson =
     js_and (obj_get packageJson ''repository'') (get_prop (obj_get packageJson ''repository'') ''url'')"

text \<open>
  The match of two maintainers in the specification's words (sections 3, 4.3 and 8):
  they share a name or they share an email. To share one, both must have it. This one
  is written from the specification, to be compared with \<open>sameMaintainer\<close>.
\<close>

fun shared :: "string option \<Rightarrow> string option \<Rightarrow> bool" where
  "shared (Some a) (Some b) = (a = b)"
| "shared _ _ = False"

definition spec_sameMaintainer :: "maintainer \<Rightarrow> maintainer \<Rightarrow> bool" where
  "spec_sameMaintainer m downloadedMaintainer =
     (if shared (name m) (name downloadedMaintainer) then True
      else shared (email m) (email downloadedMaintainer))"

text \<open>
  The verifier returns the way its promise settles and the events it caused, in order.
  The \<^verbatim>\<open>tap\<close> runs only when the lookup fulfilled; the \<^verbatim>\<open>catch\<close> filter
  \<^verbatim>\<open>{ error: 'not_found' }\<close> turns exactly the errors with that property into \<^verbatim>\<open>false\<close>
  and lets every other error through.
\<close>

definition checkRepositoryOwnership ::
  "package_data \<Rightarrow> jsobject \<Rightarrow> downloaded_info \<Rightarrow> npm_nano \<Rightarrow> bool settled \<times> collect_event list" where
  "checkRepositoryOwnership data packageJson downloaded npmNano =
     (if strict_eq (obj_get packageJson ''name'') (obj_get (dl_packageJson downloaded) ''name'')
      then (Fulfilled True, [])
      else
        let repositoryUrl = repository_url packageJson;
            downloadedRepositoryUrl = repository_url (dl_packageJson downloaded)
        in
          if \<not> truthy repositoryUrl \<and> \<not> truthy downloadedRepositoryUrl
          then (Fulfilled True, [])
          else if isEmpty (dl_packageJson downloaded)
          then (Fulfilled False, [])
          else
            (case getAsync npmNano (obj_get (dl_packageJson downloaded) ''name'') of
               Fulfilled downloadedData \<Rightarrow>
                 let isMaintainer =
                       (length (intersectionWith (maintainers data) (maintainers downloadedData)
                                  sameMaintainer) > 0)
                 in (Fulfilled isMaintainer,
                     GetAsync (obj_get (dl_packageJson downloaded) ''name'') #
                       (if \<not> isMaintainer then [LogWarn packageJson downloaded] else []))
             | Rejected e \<Rightarrow>
                 (if err_error e = Some ''not_found'' then Fulfilled False else Rejected e,
                  [GetAsync (obj_get (dl_packageJson downloaded) ''name'')])))"

section \<open>\<^verbatim>\<open>collect\<close> (lib/analyze/collect/index.js)\<close>

text \<open>
  The options of \<^verbatim>\<open>collect\<close> as the caller gives them (\<open>None\<close>: the property is not
  given), and after \<^verbatim>\<open>Object.assign\<close> has filled in the defaults.
\<close>

record collect_options =
  githubTokens :: "jsval option"
  waitRateLimit :: "jsval option"

record github_options =
  tokens :: jsval
  gh_waitRateLimit :: jsval

record source_options =
  npmRegistry :: string

text \<open>
  The collector modules are loaded from the directory at start-up and are not among the
  files modelled here; \<^verbatim>\<open>collect\<close> takes them as a parameter. A collector is called with its
  arguments and returns a promise, modelled by the way it settles.
\<close>

record collectors =
  metadata :: "package_data \<Rightarrow> jsobject \<Rightarrow> jsval settled"
  npm :: "package_data \<Rightarrow> jsobject \<Rightarrow> npm_nano \<Rightarrow> jsval settled"
  github :: "jsobject \<Rightarrow> downloaded_info \<Rightarrow> github_options \<Rightarrow> jsval settled"
  source :: "package_data \<Rightarrow> jsobject \<Rightarrow> downloaded_info \<Rightarrow> source_options \<Rightarrow> jsval settled"

text \<open>
  An entry of the aggregator's input: a pending operation, or the falsy value that
  \<^verbatim>\<open>flag && collector(...)\<close> yields when the flag is \<^verbatim>\<open>false\<close> (the collector is then
  not called).
\<close>

datatype 'a entry = Operation "'a settled" | Skip

text \<open>
  Modelled from the spec: \<^verbatim>\<open>promisePropsSettled\<close> (lib/analyze/collect/util/promisePropsSettled.js)
  is not among the files at hand. Section 4.1 of the specification: it waits for every
  operation that is not skipped and returns a mapping with only the names whose operation
  fulfilled; a skipped entry is absent; an entry whose operation failed is absent and the
  failure is reported to the log; it never fails itself.
\<close>

fun promisePropsSettled ::
  "(string \<times> jsval entry) list \<Rightarrow> jsobject \<times> (string \<times> js_error) list" where
  "promisePropsSettled [] = ([], [])"
| "promisePropsSettled ((k, Skip) # rest) = promisePropsSettled rest"
| "promisePropsSettled ((k, Operation (Fulfilled v)) # rest) =
     (case promisePropsSettled rest of (collected, failed) \<Rightarrow> ((k, v) # collected, failed))"
| "promisePropsSettled ((k, Operation (Rejected e)) # rest) =
     (case promisePropsSettled rest of (collected, failed) \<Rightarrow> (collected, (k, e) # failed))"

text \<open>lodash \<^verbatim>\<open>pickBy(object)\<close>: the properties whose value is truthy.\<close>

definition pickBy :: "jsobject \<Rightarrow> jsobject" where
  "pickBy object = filter (\<lambda>(k, v). truthy v) object"

definition assign_defaults :: "collect_options \<Rightarrow> github_options" where
  "assign_defaults options =
     \<lparr>tokens = (case githubTokens options of Some v \<Rightarrow> v | None \<Rightarrow> JNull),
      gh_waitRateLimit = (case waitRateLimit options of Some v \<Rightarrow> v | None \<Rightarrow> JBool False)\<rparr>"

definition collect ::
  "collectors \<Rightarrow> package_data \<Rightarrow> jsobject \<Rightarrow> downloaded_info \<Rightarrow> npm_nano \<Rightarrow> collect_options
     \<Rightarrow> jsobject settled \<times> collect_event list" where
  "collect cs data packageJson downloaded npmNano options =
     (case checkRepositoryOwnership data packageJson downloaded npmNano of
        (Rejected e, evs) \<Rightarrow> (Rejected e, evs)
      | (Fulfilled isRepositoryOwner, evs) \<Rightarrow>
          let isSourceOwner = (dl_downloader downloaded = ''npm'' \<or> isRepositoryOwner)
          in
            (case promisePropsSettled
                    [(''metadata'', Operation (metadata cs data packageJson)),
                     (''npm'', Operation (npm cs data packageJson npmNano)),
                     (''github'',
                        if isRepositoryOwner
                        then Operation (github cs packageJson downloaded (assign_defaults options))
                        else Skip),
                     (''source'',
                        if isSourceOwner
                        then Operation (source cs data packageJson downloaded
                               \<lparr>npmRegistry = config_url npmNano @ ''/'' @ config_db npmNano\<rparr>)
                        else Skip)]
             of (collected, failed) \<Rightarrow>
               (Fulfilled (pickBy collected),
                evs @ map (\<lambda>(k, e). LogCollectorFailed k e) failed)))"

text \<open>The keys of a result object.\<close>

definition has_key :: "jsobject \<Rightarrow> string \<Rightarrow> bool" where
  "has_key obj k = (map_of obj k \<noteq> None)"

text \<open>
  A collector's operation succeeded: its promise fulfilled. It is kept by \<^verbatim>\<open>pickBy\<close>
  when, moreover, the value it fulfilled with is truthy.
\<close>

fun succeeded :: "jsval settled \<Rightarrow> bool" where
  "succeeded (Fulfilled v) = True"
| "succeeded (Rejected e) = False"

fun kept :: "jsval settled \<Rightarrow> jsval option" where
  "kept (Fulfilled v) = (if truthy v then Some v else None)"
| "kept (Rejected e) = None"

section \<open>\<^verbatim>\<open>findPackageDir\<close> (lib/analyze/download/util/findPackageDir.js)\<close>

text \<open>
  The environment of the resolver: \<^verbatim>\<open>globby('**/package.json', {cwd: dir, ...})\<close> settles
  with the matching files, relative to \<open>dir\<close>, in its enumeration order;
  \<^verbatim>\<open>loadJsonFile\<close> settles with the parsed content of a file, which is any JSON value,
  or with an error; \<^verbatim>\<open>path.join\<close> and \<^verbatim>\<open>path.dirname\<close> are Node's.
\<close>

record node_env =
  globby :: "string \<Rightarrow> string list settled"
  loadJsonFile :: "string \<Rightarrow> jsval settled"
  path_join :: "string \<Rightarrow> string \<Rightarrow> string"
  path_dirname :: "string \<Rightarrow> string"

datatype fs_event =
    LoadJsonFile string
  | Globby string
  | LogDebug js_error string

text \<open>
  \<^verbatim>\<open>isSamePackage\<close>: both \<^verbatim>\<open>catch\<close> handlers replace a failed read by \<^verbatim>\<open>{}\<close>, the
  second one after a debug log line. The \<^verbatim>\<open>then\<close> that follows reads
  \<^verbatim>\<open>downloadedPackageJson.name\<close>, which throws a TypeError when the file parsed to
  \<^verbatim>\<open>null\<close> (valid JSON, so the read fulfilled); nothing catches it, so the promise
  rejects. The error's message is shortened.
\<close>

definition isSamePackage :: "node_env \<Rightarrow> jsobject \<Rightarrow> string \<Rightarrow> bool settled \<times> fs_event list" where
  "isSamePackage env packageJson dir =
     (let file = dir @ ''/package.json'';
          (downloadedPackageJson, evs) =
            (case loadJsonFile env file of
               Fulfilled v \<Rightarrow> (v, [LoadJsonFile file])
             | Rejected err \<Rightarrow>
                 if err_code err = Some ''ENOENT'' then (JObj [], [LoadJsonFile file])
                 else (JObj [], [LoadJsonFile file, LogDebug err file]))
      in
        (if downloadedPackageJson = JNull \<or> downloadedPackageJson = JUndefined
         then Rejected (TypeError ''Cannot read property name of null'')
         else Fulfilled (strict_eq (obj_get packageJson ''name'')
                           (get_prop downloadedPackageJson ''name'')),
         evs))"

text \<open>
  The reducer of \<^verbatim>\<open>lookForPackageDir\<close>, run by \<^verbatim>\<open>reduce\<close> from \<^verbatim>\<open>null\<close> over the
  candidate directories, one after the other; a rejection ends the reduction.
\<close>

fun lookForPackageDir_reduce ::
  "node_env \<Rightarrow> jsobject \<Rightarrow> jsval \<Rightarrow> string list \<Rightarrow> jsval settled \<times> fs_event list" where
  "lookForPackageDir_reduce env packageJson packageDir [] = (Fulfilled packageDir, [])"
| "lookForPackageDir_reduce env packageJson packageDir (possiblePackageDir # rest) =
     (if truthy packageDir then lookForPackageDir_reduce env packageJson packageDir rest
      else
        (case isSamePackage env packageJson possiblePackageDir of
           (Rejected e, evs) \<Rightarrow> (Rejected e, evs)
         | (Fulfilled isSame, evs) \<Rightarrow>
             (case lookForPackageDir_reduce env packageJson
                     (if isSame then JStr possiblePackageDir else JNull) rest
              of (r, evs') \<Rightarrow> (r, evs @ evs'))))"

definition lookForPackageDir :: "node_env \<Rightarrow> jsobject \<Rightarrow> string \<Rightarrow> jsval settled \<times> fs_event list" where
  "lookForPackageDir env packageJson dir =
     (case globby env dir of
        Rejected e \<Rightarrow> (Rejected e, [Globby dir])
      | Fulfilled files \<Rightarrow>
          (case lookForPackageDir_reduce env packageJson JNull
                  (map (\<lambda>file. path_join env dir (path_dirname env file))
                     (filter (\<lambda>file. file \<noteq> ''package.json'') files))
           of (r, evs) \<Rightarrow> (r, Globby dir # evs)))"

definition findPackageDir :: "node_env \<Rightarrow> jsobject \<Rightarrow> string \<Rightarrow> jsval settled \<times> fs_event list" where
  "findPackageDir env packageJson dir =
     (case isSamePackage env packageJson dir of
        (Rejected e, evs) \<Rightarrow> (Rejected e, evs)
      | (Fulfilled isSame, evs) \<Rightarrow>
          (case (if isSame then (Fulfilled (JStr dir), []) else lookForPackageDir env packageJson dir) of
             (Rejected e, evs') \<Rightarrow> (Rejected e, evs @ evs')
           | (Fulfilled packageDir, evs') \<Rightarrow>
               (Fulfilled (js_or packageDir (JStr dir)), evs @ evs')))"

text \<open>
  Notions used to state the resolver's properties: the candidate directories of lines
  27-33, the name of the manifest \<^verbatim>\<open>isSamePackage\<close> compares with (the one of \<^verbatim>\<open>{}\<close>
  when the read failed), and a manifest file that did not parse to \<^verbatim>\<open>null\<close>.
\<close>

definition candidates :: "node_env \<Rightarrow> string \<Rightarrow> string list \<Rightarrow> string list" where
  "candidates env dir files =
     map (\<lambda>file. path_join env dir (path_dirname env file))
       (filter (\<lambda>file. file \<noteq> ''package.json'') files)"

definition manifest_name :: "node_env \<Rightarrow> string \<Rightarrow> jsval" where
  "manifest_name env dir =
     (case loadJsonFile env (dir @ ''/package.json'') of
        Fulfilled v \<Rightarrow> get_prop v ''name''
      | Rejected err \<Rightarrow> JUndefined)"

definition manifest_not_null :: "node_env \<Rightarrow> string \<Rightarrow> bool" where
  "manifest_not_null env dir =
     (loadJsonFile env (dir @ ''/package.json'') \<noteq> Fulfilled JNull
      \<and> loadJsonFile env (dir @ ''/package.json'') \<noteq> Fulfilled JUndefined)"

section \<open>Concrete inputs\<close>

text \<open>
  A package \<open>fake-jquery\<close> whose manifest points at the repository of \<open>jquery\<close>, the
  manifest found in that repository, three maintainers (\<open>carol\<close> shares her email with
  \<open>alice\<close>), a registry client that settles every lookup in a given way, and two errors.
\<close>

definition alice :: maintainer where
  "alice = \<lparr>name = Some ''alice'', email = Some ''alice@example.com''\<rparr>"

definition bob :: maintainer where
  "bob = \<lparr>name = Some ''bob'', email = Some ''bob@example.com''\<rparr>"

definition carol :: maintainer where
  "carol = \<lparr>name = Some ''carol'', email = Some ''alice@example.com''\<rparr>"

text \<open>
  Two maintainers that have a name only: neither has an email, and their names differ.
\<close>

definition mallory :: maintainer where
  "mallory = \<lparr>name = Some ''mallory'', email = None\<rparr>"

definition jdalton :: maintainer where
  "jdalton = \<lparr>name = Some ''jdalton'', email = None\<rparr>"

definition ex_packageJson :: jsobject where
  "ex_packageJson =
     [(''name'', JStr ''fake-jquery''),
      (''repository'',
         JObj [(''type'', JStr ''git''), (''url'', JStr ''git://github.com/jquery/jquery.git'')])]"

definition ex_downloadedPackageJson :: jsobject where
  "ex_downloadedPackageJson =
     [(''name'', JStr ''jquery''),
      (''repository'',
         JObj [(''type'', JStr ''git''), (''url'', JStr ''git://github.com/jquery/jquery.git'')])]"

definition ex_downloaded :: "jsobject \<Rightarrow> string \<Rightarrow> downloaded_info" where
  "ex_downloaded pj downloader =
     \<lparr>dl_dir = ''/tmp/pkg'', dl_packageJson = pj, dl_downloader = downloader\<rparr>"

definition ex_npmNano :: "package_data settled \<Rightarrow> npm_nano" where
  "ex_npmNano r =
     \<lparr>getAsync = (\<lambda>n. r), config_url = ''https://replicate.npmjs.com'', config_db = ''registry''\<rparr>"

definition not_found :: js_error where
  "not_found = \<lparr>err_message = ''missing'', err_error = Some ''not_found'', err_code = None\<rparr>"

definition timed_out :: js_error where
  "timed_out =
     \<lparr>err_message = ''connect ETIMEDOUT'', err_error = None, err_code = Some ''ETIMEDOUT''\<rparr>"

text \<open>Collectors that settle in a given way, and options that give nothing.\<close>

definition ex_collectors ::
  "jsval settled \<Rightarrow> jsval settled \<Rightarrow> jsval settled \<Rightarrow> jsval settled \<Rightarrow> collectors" where
  "ex_collectors m n g s =
     \<lparr>metadata = (\<lambda>data packageJson. m), npm = (\<lambda>data packageJson npmNano. n),
      github = (\<lambda>packageJson downloaded options. g),
      source = (\<lambda>data packageJson downloaded options. s)\<rparr>"

definition ex_options :: collect_options where
  "ex_options = \<lparr>githubTokens = None, waitRateLimit = None\<rparr>"

definition ex_metadata :: jsval where
  "ex_metadata = JObj [(''name'', JStr ''jquery''), (''version'', JStr ''3.1.0'')]"

definition ex_source :: jsval where
  "ex_source = JObj [(''files'', JObj [(''readmeSize'', JNum 2048), (''hasChangelog'', JBool False)])]"

definition ex_github :: jsval where
  "ex_github = JObj [(''starsCount'', JNum 50000)]"

text \<open>
  A checkout of a mono-repository under \<^verbatim>\<open>/tmp/repo\<close> with three manifest files: the
  root's, one under \<^verbatim>\<open>fixtures\<close> whose reading settles in a given way, and the one of
  the package \<open>foo\<close>. Every other file is missing. \<^verbatim>\<open>path.dirname\<close> and \<^verbatim>\<open>path.join\<close>
  are given for the plain relative paths that occur: the part before the last slash, and
  the two parts with a slash between them.
\<close>

definition ex_dirname :: "string \<Rightarrow> string" where
  "ex_dirname p =
     (if CHR ''/'' \<in> set p then rev (tl (dropWhile (\<lambda>c. c \<noteq> CHR ''/'') (rev p))) else ''.'')"

definition ex_join :: "string \<Rightarrow> string \<Rightarrow> string" where
  "ex_join a b = a @ ''/'' @ b"

definition enoent :: js_error where
  "enoent =
     \<lparr>err_message = ''ENOENT: no such file or directory'', err_error = None,
      err_code = Some ''ENOENT''\<rparr>"

definition json_error :: js_error where
  "json_error =
     \<lparr>err_message = ''Unexpected end of JSON input'', err_error = None, err_code = None\<rparr>"

definition ex_env :: "(string \<times> jsval settled) list \<Rightarrow> string list \<Rightarrow> node_env" where
  "ex_env contents files =
     \<lparr>globby = (\<lambda>cwd. Fulfilled files),
      loadJsonFile = (\<lambda>file. case map_of contents file of Some r \<Rightarrow> r | None \<Rightarrow> Rejected enoent),
      path_join = ex_join, path_dirname = ex_dirname\<rparr>"

definition ex_files :: "string list" where
  "ex_files = [''package.json'', ''fixtures/package.json'', ''packages/foo/package.json'']"

definition ex_contents :: "jsval settled \<Rightarrow> (string \<times> jsval settled) list" where
  "ex_contents fixture =
     [(''/tmp/repo/package.json'',
         Fulfilled (JObj [(''name'', JStr ''monorepo''), (''private'', JBool True)])),
      (''/tmp/repo/fixtures/package.json'', fixture),
      (''/tmp/repo/packages/foo/package.json'', Fulfilled (JObj [(''name'', JStr ''foo'')]))]"

section \<open>Auxiliary facts\<close>

lemmas ex_defs = alice_def bob_def carol_def ex_packageJson_def ex_downloadedPackageJson_def
  ex_downloaded_def ex_npmNano_def not_found_def timed_out_def obj_get_def repository_url_def
  js_and_def isEmpty_def has_key_def

lemmas ex_collect_defs = ex_collectors_def ex_options_def ex_metadata_def ex_source_def ex_github_def
  collect_def checkRepositoryOwnership_def pickBy_def intersectionWith_def arrayIncludesWith_def
  sameMaintainer_def assign_defaults_def

lemmas ex_fs_defs = ex_dirname_def ex_join_def enoent_def json_error_def ex_env_def ex_files_def
  ex_contents_def findPackageDir_def lookForPackageDir_def isSamePackage_def obj_get_def js_or_def
  TypeError_def Let_def

lemma strict_eq_undefined: "strict_eq a JUndefined = (a = JUndefined)"
  by (cases a) auto

lemma has_key_Cons: "has_key ((k, v) # obj) k' = (k = k' \<or> has_key obj k')"
  by (auto simp: has_key_def)

lemma has_key_Nil: "has_key [] k = False"
  by (simp add: has_key_def)

text \<open>
  \<^verbatim>\<open>intersectionWith(...).length > 0\<close> holds exactly when some element of the first
  array matches some element of the second: the result, once non-empty, stays so, and
  from the empty result the first element with a match is pushed.
\<close>

lemma loop_keeps_nonempty:
  "result \<noteq> [] \<Longrightarrow> baseIntersection_loop c other n result xs \<noteq> []"
  by (induction xs arbitrary: result) auto

lemma loop_from_empty:
  "0 < n \<Longrightarrow>
   (baseIntersection_loop c other n [] xs \<noteq> []) = (\<exists>x\<in>set xs. \<exists>y\<in>set other. c x y)"
proof (induction xs)
  case Nil
  then show ?case by simp
next
  case (Cons v rest)
  show ?case
  proof (cases "\<exists>y\<in>set other. c v y")
    case True
    then have "baseIntersection_loop c other n [] (v # rest) = baseIntersection_loop c other n [v] rest"
      using Cons.prems by (simp add: arrayIncludesWith_def list_ex_iff)
    then show ?thesis using True loop_keeps_nonempty [of "[v]" c other n rest] by auto
  next
    case False
    then have "baseIntersection_loop c other n [] (v # rest) = baseIntersection_loop c other n [] rest"
      using Cons.prems by (simp add: arrayIncludesWith_def list_ex_iff)
    then show ?thesis using False Cons by auto
  qed
qed

lemma loop_zero: "baseIntersection_loop c other 0 [] xs = []"
  by (cases xs) auto

lemma intersectionWith_nonempty:
  "(intersectionWith xs other c \<noteq> []) = (\<exists>x\<in>set xs. \<exists>y\<in>set other. c x y)"
proof (cases "min (length xs) (length other) = 0")
  case True
  then have "xs = [] \<or> other = []" by (cases xs; cases other) auto
  then show ?thesis using True by (auto simp: intersectionWith_def loop_zero)
next
  case False
  then show ?thesis by (simp add: intersectionWith_def loop_from_empty)
qed

text \<open>
  The resolver on a tree none of whose manifest files parsed to \<^verbatim>\<open>null\<close>: every
  comparison fulfils, and the reduction returns the first candidate whose manifest has
  the target's name.
\<close>

lemma isSamePackage_not_null:
  "manifest_not_null env dir \<Longrightarrow>
   fst (isSamePackage env packageJson dir)
     = Fulfilled (strict_eq (obj_get packageJson ''name'') (manifest_name env dir))"
  by (auto simp: isSamePackage_def manifest_not_null_def manifest_name_def Let_def obj_get_def
           split: settled.splits)

lemma reduce_truthy:
  "truthy packageDir \<Longrightarrow>
   lookForPackageDir_reduce env packageJson packageDir dirs = (Fulfilled packageDir, [])"
  by (induction dirs) auto

lemma reduce_first_match:
  assumes "\<forall>d\<in>set dirs. d \<noteq> [] \<and> manifest_not_null env d"
  shows "fst (lookForPackageDir_reduce env packageJson JNull dirs)
         = Fulfilled (case find (\<lambda>d. strict_eq (obj_get packageJson ''name'') (manifest_name env d)) dirs of
                        Some d \<Rightarrow> JStr d | None \<Rightarrow> JNull)"
  using assms
proof (induction dirs)
  case Nil
  then show ?case by simp
next
  case (Cons d rest)
  then have nn: "manifest_not_null env d" and ne: "d \<noteq> []" by auto
  obtain r evs where s: "isSamePackage env packageJson d = (r, evs)"
    by (cases "isSamePackage env packageJson d")
  with isSamePackage_not_null [OF nn, of packageJson]
  have r: "r = Fulfilled (strict_eq (obj_get packageJson ''name'') (manifest_name env d))" by simp
  show ?case
  proof (cases "strict_eq (obj_get packageJson ''name'') (manifest_name env d)")
    case True
    then show ?thesis using s r ne by (simp add: reduce_truthy)
  next
    case False
    then show ?thesis using s r Cons by (auto split: prod.splits)
  qed
qed

lemma findPackageDir_first_match:
  assumes "manifest_not_null env dir"
    and "\<not> strict_eq (obj_get packageJson ''name'') (manifest_name env dir)"
    and "globby env dir = Fulfilled files"
    and "\<forall>d\<in>set (candidates env dir files). d \<noteq> [] \<and> manifest_not_null env d"
  shows "fst (findPackageDir env packageJson dir)
         = Fulfilled (JStr (case find (\<lambda>d. strict_eq (obj_get packageJson ''name'') (manifest_name env d))
                                   (candidates env dir files) of
                              Some d \<Rightarrow> d | None \<Rightarrow> dir))"
proof -
  obtain evs where s: "isSamePackage env packageJson dir = (Fulfilled False, evs)"
    using isSamePackage_not_null [OF assms(1), of packageJson] assms(2)
    by (cases "isSamePackage env packageJson dir") auto
  let ?found = "find (\<lambda>d. strict_eq (obj_get packageJson ''name'') (manifest_name env d))
                  (candidates env dir files)"
  have f: "?found = Some d \<Longrightarrow> d \<noteq> []" for d
    using assms(4) by (auto simp: find_Some_iff)
  obtain evs' where l: "lookForPackageDir_reduce env packageJson JNull (candidates env dir files)
       = (Fulfilled (case ?found of Some d \<Rightarrow> JStr d | None \<Rightarrow> JNull), evs')"
    using reduce_first_match [OF assms(4), of packageJson]
    by (cases "lookForPackageDir_reduce env packageJson JNull (candidates env dir files)") auto
  show ?thesis
    using s l assms(3) f
    by (cases ?found) (auto simp: findPackageDir_def lookForPackageDir_def candidates_def js_or_def)
qed

text \<open>
  A candidate whose manifest is malformed is logged and passed over: the package \<open>foo\<close>
  is found behind it.
\<close>

lemma findPackageDir_malformed_candidate:
  "findPackageDir (ex_env (ex_contents (Rejected json_error)) ex_files) [(''name'', JStr ''foo'')]
     ''/tmp/repo''
   = (Fulfilled (JStr ''/tmp/repo/packages/foo''),
      [LoadJsonFile ''/tmp/repo/package.json'', Globby ''/tmp/repo'',
       LoadJsonFile ''/tmp/repo/fixtures/package.json'',
       LogDebug json_error ''/tmp/repo/fixtures/package.json'',
       LoadJsonFile ''/tmp/repo/packages/foo/package.json''])"
  by (simp add: ex_fs_defs)

text \<open>
  What the lookup step computes when the registry returns a record: true exactly when
  some maintainer of the package and some maintainer of the record are matched by the
  comparator of lines 46-47, for which an absent property equals an absent one. When
  every maintainer on one side has both a name and an email, that comparator is the
  specification's match.
\<close>

lemma checkRepositoryOwnership_lookup_record:
  assumes "\<not> strict_eq (obj_get packageJson ''name'') (obj_get (dl_packageJson downloaded) ''name'')"
    and "truthy (repository_url packageJson) \<or> truthy (repository_url (dl_packageJson downloaded))"
    and "\<not> isEmpty (dl_packageJson downloaded)"
    and "getAsync npmNano (obj_get (dl_packageJson downloaded) ''name'') = Fulfilled downloadedData"
  shows "fst (checkRepositoryOwnership data packageJson downloaded npmNano) =
           Fulfilled (\<exists>m\<in>set (maintainers data). \<exists>d\<in>set (maintainers downloadedData).
                        sameMaintainer m d)"
  using assms
    intersectionWith_nonempty [of "maintainers data" "maintainers downloadedData" sameMaintainer]
  by (auto simp: checkRepositoryOwnership_def Let_def)

lemma sameMaintainer_spec:
  assumes "name m \<noteq> None" and "email m \<noteq> None"
  shows "sameMaintainer m d = spec_sameMaintainer m d"
  using assms
  by (cases "name m"; cases "email m"; cases "name d"; cases "email d")
     (auto simp: sameMaintainer_def spec_sameMaintainer_def)

lemma checkRepositoryOwnership_lookup_record_spec:
  assumes "\<not> strict_eq (obj_get packageJson ''name'') (obj_get (dl_packageJson downloaded) ''name'')"
    and "truthy (repository_url packageJson) \<or> truthy (repository_url (dl_packageJson downloaded))"
    and "\<not> isEmpty (dl_packageJson downloaded)"
    and "getAsync npmNano (obj_get (dl_packageJson downloaded) ''name'') = Fulfilled downloadedData"
    and "\<forall>m\<in>set (maintainers data). name m \<noteq> None \<and> email m \<noteq> None"
  shows "fst (checkRepositoryOwnership data packageJson downloaded npmNano) =
           Fulfilled (\<exists>m\<in>set (maintainers data). \<exists>d\<in>set (maintainers downloadedData).
                        spec_sameMaintainer m d)"
  using checkRepositoryOwnership_lookup_record [OF assms(1-4), of data] assms(5)
  by (simp add: sameMaintainer_spec)

section \<open>Properties of the ownership verifier\<close>

text \<open>
  C6. The verifier resolves to true, and performs no registry lookup (it causes no event
  at all), when the latest manifest's name is strictly equal to the downloaded manifest's
  name, whatever the repository URLs and the maintainers are, and also when neither
  manifest declares a repository URL.
\<close>

theorem ownership_true_without_lookup:
  assumes "strict_eq (obj_get packageJson ''name'') (obj_get (dl_packageJson downloaded) ''name'')
           \<or> (\<not> truthy (repository_url packageJson)
              \<and> \<not> truthy (repository_url (dl_packageJson downloaded)))"
  shows "checkRepositoryOwnership data packageJson downloaded npmNano = (Fulfilled True, [])"
  using assms by (auto simp: checkRepositoryOwnership_def Let_def)

text \<open>
  Both cases at concrete inputs: equal names with a registry that would fail, and two
  manifests with different names and no \<^verbatim>\<open>repository\<close>.
\<close>

theorem ownership_true_without_lookup_witness:
  "checkRepositoryOwnership \<lparr>maintainers = [alice]\<rparr> ex_downloadedPackageJson
          (ex_downloaded ex_downloadedPackageJson ''github'') (ex_npmNano (Rejected timed_out))
     = (Fulfilled True, [])
   \<and> checkRepositoryOwnership \<lparr>maintainers = [alice]\<rparr> [(''name'', JStr ''left-pad'')]
          (ex_downloaded [(''name'', JStr ''leftpad''), (''version'', JStr ''0.0.1'')] ''github'')
          (ex_npmNano (Rejected timed_out))
     = (Fulfilled True, [])"
proof -
  have h1: "strict_eq (obj_get ex_downloadedPackageJson ''name'')
              (obj_get (dl_packageJson (ex_downloaded ex_downloadedPackageJson ''github'')) ''name'')"
    by (simp add: ex_defs)
  have h2: "\<not> truthy (repository_url [(''name'', JStr ''left-pad'')])
          \<and> \<not> truthy (repository_url (dl_packageJson
                 (ex_downloaded [(''name'', JStr ''leftpad''), (''version'', JStr ''0.0.1'')] ''github'')))"
    by (simp add: ex_defs)
  show ?thesis
    using ownership_true_without_lookup [OF disjI1, OF h1]
      ownership_true_without_lookup [OF disjI2, OF h2]
    by simp
qed

text \<open>
  C10. If the latest manifest has no \<^verbatim>\<open>name\<close> field and the downloaded manifest is
  empty, the name comparison of line 26 compares \<^verbatim>\<open>undefined\<close> with \<^verbatim>\<open>undefined\<close>
  and the verifier resolves to true at once: the test for an empty downloaded manifest
  (line 39) is never reached.
\<close>

theorem ownership_absent_names_true:
  assumes "\<not> has_key packageJson ''name''" and "isEmpty (dl_packageJson downloaded)"
  shows "checkRepositoryOwnership data packageJson downloaded npmNano = (Fulfilled True, [])"
  using assms by (simp add: checkRepositoryOwnership_def has_key_def isEmpty_def obj_get_def)

theorem ownership_absent_names_true_witness:
  "\<not> has_key [(''version'', JStr ''1.0.0''),
               (''repository'', JObj [(''url'', JStr ''git://github.com/jquery/jquery.git'')])] ''name''
   \<and> checkRepositoryOwnership \<lparr>maintainers = [alice]\<rparr>
        [(''version'', JStr ''1.0.0''),
         (''repository'', JObj [(''url'', JStr ''git://github.com/jquery/jquery.git'')])]
        (ex_downloaded [] ''github'') (ex_npmNano (Rejected timed_out)) = (Fulfilled True, [])"
proof -
  have h1: "\<not> has_key [(''version'', JStr ''1.0.0''),
                        (''repository'', JObj [(''url'', JStr ''git://github.com/jquery/jquery.git'')])]
                ''name''"
    by (simp add: has_key_def)
  have h2: "isEmpty (dl_packageJson (ex_downloaded [] ''github''))"
    by (simp add: ex_defs)
  show ?thesis using ownership_absent_names_true [OF h1 h2] h1 by simp
qed

text \<open>
  C2, as amended. The claim that an empty downloaded manifest always gives the verdict
  false does not hold: the test for it comes third. What holds: when the downloaded
  manifest is empty, the latest manifest has a name and declares a repository URL, the
  verifier resolves to false, without a registry lookup and whatever the other inputs are.
\<close>

theorem ownership_empty_download_false:
  assumes "isEmpty (dl_packageJson downloaded)"
    and "obj_get packageJson ''name'' \<noteq> JUndefined"
    and "truthy (repository_url packageJson)"
  shows "checkRepositoryOwnership data packageJson downloaded npmNano = (Fulfilled False, [])"
  using assms
  by (simp add: checkRepositoryOwnership_def isEmpty_def strict_eq_undefined obj_get_def [of "[]"])

theorem ownership_empty_download_false_witness:
  "checkRepositoryOwnership \<lparr>maintainers = [alice]\<rparr> ex_packageJson
     (ex_downloaded [] ''github'') (ex_npmNano (Fulfilled \<lparr>maintainers = [alice]\<rparr>))
   = (Fulfilled False, [])"
proof -
  have h1: "isEmpty (dl_packageJson (ex_downloaded [] ''github''))" by (simp add: ex_defs)
  have h2: "obj_get ex_packageJson ''name'' \<noteq> JUndefined" by (simp add: ex_defs)
  have h3: "truthy (repository_url ex_packageJson)" by (simp add: ex_defs)
  show ?thesis using ownership_empty_download_false [OF h1 h2 h3] by simp
qed

text \<open>
  The claim as stated fails for a package that declares no repository: the downloaded
  manifest is empty and the verdict is true, by the test of line 34.
\<close>

theorem ownership_empty_download_counterexample:
  "isEmpty (dl_packageJson (ex_downloaded [] ''github''))
   \<and> fst (checkRepositoryOwnership \<lparr>maintainers = [alice]\<rparr> [(''name'', JStr ''some-package'')]
        (ex_downloaded [] ''github'') (ex_npmNano (Rejected not_found))) = Fulfilled True"
  by (simp add: checkRepositoryOwnership_def ex_defs)

text \<open>
  C4. A downloaded manifest that names a different package, a registry record for that
  package, and maintainers on the two sides that share no name and no email: the verdict
  should be false. The comparator of lines 46-47 compares the two \<^verbatim>\<open>email\<close>
  properties with \<^verbatim>\<open>===\<close> even when both are absent, and \<^verbatim>\<open>undefined === undefined\<close>
  holds. So \<open>mallory\<close>, who publishes \<open>fake-jquery\<close> and has no email on record, matches
  \<open>jdalton\<close>, who has none either: the verifier resolves to true, and without a warning.
\<close>

theorem ownership_absent_email_match:
  "\<not> spec_sameMaintainer mallory jdalton
   \<and> checkRepositoryOwnership \<lparr>maintainers = [mallory]\<rparr> ex_packageJson
        (ex_downloaded ex_downloadedPackageJson ''github'')
        (ex_npmNano (Fulfilled \<lparr>maintainers = [jdalton]\<rparr>))
     = (Fulfilled True, [GetAsync (JStr ''jquery'')])"
  by (simp add: checkRepositoryOwnership_def ex_defs mallory_def jdalton_def spec_sameMaintainer_def
        intersectionWith_def arrayIncludesWith_def sameMaintainer_def)

text \<open>
  C5. When the verifier reaches the registry lookup and the lookup fails: an error whose
  \<^verbatim>\<open>error\<close> property is \<^verbatim>\<open>'not_found'\<close> gives the verdict false; any other error is
  the rejection of the verifier, and \<^verbatim>\<open>collect\<close> for that package rejects with the same
  error, so it has no result, partial or not.
\<close>

theorem ownership_lookup_failure:
  assumes "\<not> strict_eq (obj_get packageJson ''name'') (obj_get (dl_packageJson downloaded) ''name'')"
    and "truthy (repository_url packageJson) \<or> truthy (repository_url (dl_packageJson downloaded))"
    and "\<not> isEmpty (dl_packageJson downloaded)"
    and "getAsync npmNano (obj_get (dl_packageJson downloaded) ''name'') = Rejected e"
  shows "(err_error e = Some ''not_found'' \<longrightarrow>
            fst (checkRepositoryOwnership data packageJson downloaded npmNano) = Fulfilled False)
       \<and> (err_error e \<noteq> Some ''not_found'' \<longrightarrow>
            fst (checkRepositoryOwnership data packageJson downloaded npmNano) = Rejected e
          \<and> fst (collect cs data packageJson downloaded npmNano options) = Rejected e)"
  using assms by (auto simp: checkRepositoryOwnership_def collect_def Let_def)

theorem ownership_lookup_failure_witness:
  "fst (checkRepositoryOwnership \<lparr>maintainers = [alice]\<rparr> ex_packageJson
          (ex_downloaded ex_downloadedPackageJson ''github'') (ex_npmNano (Rejected not_found)))
     = Fulfilled False
   \<and> fst (checkRepositoryOwnership \<lparr>maintainers = [alice]\<rparr> ex_packageJson
          (ex_downloaded ex_downloadedPackageJson ''github'') (ex_npmNano (Rejected timed_out)))
     = Rejected timed_out
   \<and> fst (collect
            (ex_collectors (Fulfilled (JObj [])) (Fulfilled (JObj [])) (Fulfilled (JObj []))
               (Fulfilled (JObj [])))
            \<lparr>maintainers = [alice]\<rparr> ex_packageJson
            (ex_downloaded ex_downloadedPackageJson ''github'') (ex_npmNano (Rejected timed_out))
            ex_options)
     = Rejected timed_out"
proof -
  let ?dl = "ex_downloaded ex_downloadedPackageJson ''github''"
  have h1: "\<not> strict_eq (obj_get ex_packageJson ''name'') (obj_get (dl_packageJson ?dl) ''name'')"
    by (simp add: ex_defs)
  have h2: "truthy (repository_url ex_packageJson) \<or> truthy (repository_url (dl_packageJson ?dl))"
    by (simp add: ex_defs)
  have h3: "\<not> isEmpty (dl_packageJson ?dl)"
    by (simp add: ex_defs)
  have h4: "getAsync (ex_npmNano (Rejected e)) (obj_get (dl_packageJson ?dl) ''name'') = Rejected e"
    for e by (simp add: ex_defs)
  have n: "err_error not_found = Some ''not_found''" "err_error timed_out \<noteq> Some ''not_found''"
    by (simp_all add: ex_defs)
  show ?thesis
    using ownership_lookup_failure [OF h1 h2 h3 h4, of not_found]
      ownership_lookup_failure [OF h1 h2 h3 h4, of timed_out] n
    by simp
qed

text \<open>
  C7, as amended. Not every false verdict is logged. What holds: when the verifier
  resolves to false after the registry lookup returned a record (no maintainer matches),
  it has emitted one warning, which carries the latest manifest and the downloaded info,
  after the lookup; when it resolves to false because the downloaded manifest is empty,
  it has emitted nothing.
\<close>

theorem ownership_false_warning:
  assumes "checkRepositoryOwnership data packageJson downloaded npmNano = (Fulfilled False, evs)"
  shows "(isEmpty (dl_packageJson downloaded) \<longrightarrow> evs = [])
       \<and> (\<not> isEmpty (dl_packageJson downloaded)
          \<and> getAsync npmNano (obj_get (dl_packageJson downloaded) ''name'') = Fulfilled downloadedData
          \<longrightarrow> evs = [GetAsync (obj_get (dl_packageJson downloaded) ''name''),
                     LogWarn packageJson downloaded])"
  using assms by (auto simp: checkRepositoryOwnership_def Let_def split: if_splits)

theorem ownership_false_warning_witness:
  "checkRepositoryOwnership \<lparr>maintainers = [alice]\<rparr> ex_packageJson
        (ex_downloaded ex_downloadedPackageJson ''github'')
        (ex_npmNano (Fulfilled \<lparr>maintainers = [bob]\<rparr>))
     = (Fulfilled False,
        [GetAsync (JStr ''jquery''),
         LogWarn ex_packageJson (ex_downloaded ex_downloadedPackageJson ''github'')])
   \<and> checkRepositoryOwnership \<lparr>maintainers = [alice]\<rparr> ex_packageJson
        (ex_downloaded [] ''github'') (ex_npmNano (Fulfilled \<lparr>maintainers = [bob]\<rparr>))
     = (Fulfilled False, [])"
proof -
  let ?dl = "ex_downloaded ex_downloadedPackageJson ''github''"
  let ?nano = "ex_npmNano (Fulfilled \<lparr>maintainers = [bob]\<rparr>)"
  obtain evs where e:
    "checkRepositoryOwnership \<lparr>maintainers = [alice]\<rparr> ex_packageJson ?dl ?nano = (Fulfilled False, evs)"
    by (simp add: checkRepositoryOwnership_def ex_defs intersectionWith_def arrayIncludesWith_def
          sameMaintainer_def)
  obtain evs' where e':
    "checkRepositoryOwnership \<lparr>maintainers = [alice]\<rparr> ex_packageJson
       (ex_downloaded [] ''github'') ?nano = (Fulfilled False, evs')"
    by (simp add: checkRepositoryOwnership_def ex_defs)
  have h1: "\<not> isEmpty (dl_packageJson ?dl)
            \<and> getAsync ?nano (obj_get (dl_packageJson ?dl) ''name'') = Fulfilled \<lparr>maintainers = [bob]\<rparr>"
    by (simp add: ex_defs)
  have h2: "isEmpty (dl_packageJson (ex_downloaded [] ''github''))"
    by (simp add: ex_defs)
  have n: "obj_get (dl_packageJson ?dl) ''name'' = JStr ''jquery''"
    by (simp add: ex_defs)
  show ?thesis
    using ownership_false_warning [OF e, of "\<lparr>maintainers = [bob]\<rparr>"]
      ownership_false_warning [OF e', of "\<lparr>maintainers = [bob]\<rparr>"] h1 h2 e e' n
    by simp
qed

text \<open>
  The claim as stated fails when the claimed repository could not be downloaded: the
  verdict is false and no event, so no warning, has been emitted.
\<close>

theorem ownership_warning_counterexample:
  "checkRepositoryOwnership \<lparr>maintainers = [alice]\<rparr> ex_packageJson
     (ex_downloaded [] ''gitlab'') (ex_npmNano (Fulfilled \<lparr>maintainers = [bob]\<rparr>))
   = (Fulfilled False, [])"
  by (simp add: checkRepositoryOwnership_def ex_defs)

section \<open>Properties of the collection pass\<close>

text \<open>
  C1, as amended. A collector that fulfils with a falsy value (\<^verbatim>\<open>null\<close>, say) is
  dropped by \<^verbatim>\<open>pickBy\<close>, so its success alone does not give its key. What holds, for
  every collection pass that resolves: the result has the \<^verbatim>\<open>github\<close> key only if the
  ownership verdict is true; it has the \<^verbatim>\<open>source\<close> key exactly when the source
  collector fulfilled with a truthy value and the downloader is \<^verbatim>\<open>'npm'\<close> or the verdict
  is true. So a download from the registry yields the source key even when the verdict is
  false, and no key appears for a collector that was not applicable.
\<close>

theorem collect_gated_keys:
  assumes "fst (checkRepositoryOwnership data packageJson downloaded npmNano) = Fulfilled owner"
    and "fst (collect cs data packageJson downloaded npmNano options) = Fulfilled res"
  shows "(has_key res ''github'' \<longrightarrow> owner)
       \<and> (has_key res ''source'' \<longleftrightarrow>
            (\<exists>v. source cs data packageJson downloaded
                    \<lparr>npmRegistry = config_url npmNano @ ''/'' @ config_db npmNano\<rparr> = Fulfilled v
                  \<and> truthy v)
            \<and> (dl_downloader downloaded = ''npm'' \<or> owner))"
proof -
  obtain evs where v:
    "checkRepositoryOwnership data packageJson downloaded npmNano = (Fulfilled owner, evs)"
    using assms(1) by (cases "checkRepositoryOwnership data packageJson downloaded npmNano") auto
  show ?thesis
    using assms(2)
    by (cases "metadata cs data packageJson"; cases "npm cs data packageJson npmNano";
        cases "github cs packageJson downloaded (assign_defaults options)";
        cases "source cs data packageJson downloaded
                 \<lparr>npmRegistry = config_url npmNano @ ''/'' @ config_db npmNano\<rparr>")
       (auto simp add: collect_def v pickBy_def has_key_Cons has_key_Nil split: if_splits)
qed

text \<open>
  \<open>fake-jquery\<close>, downloaded from the registry, not owned: no \<^verbatim>\<open>github\<close> key although
  that collector would fulfil, and the \<^verbatim>\<open>source\<close> key is there.
\<close>

theorem collect_gated_keys_witness:
  "fst (collect
          (ex_collectors (Fulfilled ex_metadata) (Fulfilled JNull) (Fulfilled ex_github)
             (Fulfilled ex_source))
          \<lparr>maintainers = [alice]\<rparr> ex_packageJson
          (ex_downloaded ex_downloadedPackageJson ''npm'')
          (ex_npmNano (Fulfilled \<lparr>maintainers = [bob]\<rparr>)) ex_options)
     = Fulfilled [(''metadata'', ex_metadata), (''source'', ex_source)]
   \<and> \<not> has_key [(''metadata'', ex_metadata), (''source'', ex_source)] ''github''
   \<and> has_key [(''metadata'', ex_metadata), (''source'', ex_source)] ''source''"
proof -
  let ?cs = "ex_collectors (Fulfilled ex_metadata) (Fulfilled JNull) (Fulfilled ex_github)
               (Fulfilled ex_source)"
  let ?dl = "ex_downloaded ex_downloadedPackageJson ''npm''"
  let ?nano = "ex_npmNano (Fulfilled \<lparr>maintainers = [bob]\<rparr>)"
  let ?res = "[(''metadata'', ex_metadata), (''source'', ex_source)]"
  have h1: "fst (checkRepositoryOwnership \<lparr>maintainers = [alice]\<rparr> ex_packageJson ?dl ?nano)
             = Fulfilled False"
    by (simp add: ex_collect_defs ex_defs)
  have h2: "fst (collect ?cs \<lparr>maintainers = [alice]\<rparr> ex_packageJson ?dl ?nano ex_options)
             = Fulfilled ?res"
    by (simp add: ex_collect_defs ex_defs)
  have k: "source ?cs \<lparr>maintainers = [alice]\<rparr> ex_packageJson ?dl
             \<lparr>npmRegistry = config_url ?nano @ ''/'' @ config_db ?nano\<rparr> = Fulfilled ex_source"
    "truthy ex_source" "dl_downloader ?dl = ''npm''"
    by (simp_all add: ex_collect_defs ex_defs)
  show ?thesis
    using collect_gated_keys [OF h1 h2] h2 k by auto
qed

text \<open>
  The claim as stated fails when the source collector succeeds with \<^verbatim>\<open>null\<close>: the
  download is from the registry, the collector's operation succeeded, and the result has
  no \<^verbatim>\<open>source\<close> key.
\<close>

theorem collect_source_key_counterexample:
  "fst (collect
          (ex_collectors (Fulfilled ex_metadata) (Fulfilled ex_metadata) (Fulfilled ex_github)
             (Fulfilled JNull))
          \<lparr>maintainers = [alice]\<rparr> ex_packageJson
          (ex_downloaded ex_downloadedPackageJson ''npm'')
          (ex_npmNano (Fulfilled \<lparr>maintainers = [bob]\<rparr>)) ex_options)
     = Fulfilled [(''metadata'', ex_metadata), (''npm'', ex_metadata)]
   \<and> succeeded
       (source
          (ex_collectors (Fulfilled ex_metadata) (Fulfilled ex_metadata) (Fulfilled ex_github)
             (Fulfilled JNull))
          \<lparr>maintainers = [alice]\<rparr> ex_packageJson (ex_downloaded ex_downloadedPackageJson ''npm'')
          \<lparr>npmRegistry = ''https://replicate.npmjs.com/registry''\<rparr>)
   \<and> dl_downloader (ex_downloaded ex_downloadedPackageJson ''npm'') = ''npm''
   \<and> \<not> has_key [(''metadata'', ex_metadata), (''npm'', ex_metadata)] ''source''"
  by (simp add: ex_collect_defs ex_defs)

text \<open>
  C3, as amended. Whenever the ownership verifier resolves, \<^verbatim>\<open>collect\<close> resolves, whatever
  way each collector settles, and each key of its result depends on its own collector
  only: the key is there, with the collector's value, exactly when the collector was
  applicable and fulfilled with a truthy value. A collector that fails removes its own
  key and nothing else. (As stated, with the keys of all succeeding collectors, the claim
  fails for a collector that succeeds with a falsy value.)
\<close>

theorem collect_partial_failure:
  assumes "fst (checkRepositoryOwnership data packageJson downloaded npmNano) = Fulfilled owner"
  shows "\<exists>res. fst (collect cs data packageJson downloaded npmNano options) = Fulfilled res
       \<and> map_of res ''metadata'' = kept (metadata cs data packageJson)
       \<and> map_of res ''npm'' = kept (npm cs data packageJson npmNano)
       \<and> map_of res ''github'' =
           (if owner then kept (github cs packageJson downloaded (assign_defaults options)) else None)
       \<and> map_of res ''source'' =
           (if dl_downloader downloaded = ''npm'' \<or> owner
            then kept (source cs data packageJson downloaded
                        \<lparr>npmRegistry = config_url npmNano @ ''/'' @ config_db npmNano\<rparr>)
            else None)
       \<and> (\<forall>k. has_key res k \<longrightarrow> k \<in> {''metadata'', ''npm'', ''github'', ''source''})"
proof -
  obtain evs where v:
    "checkRepositoryOwnership data packageJson downloaded npmNano = (Fulfilled owner, evs)"
    using assms by (cases "checkRepositoryOwnership data packageJson downloaded npmNano") auto
  show ?thesis
    by (cases "metadata cs data packageJson"; cases "npm cs data packageJson npmNano";
        cases "github cs packageJson downloaded (assign_defaults options)";
        cases "source cs data packageJson downloaded
                 \<lparr>npmRegistry = config_url npmNano @ ''/'' @ config_db npmNano\<rparr>")
       (simp_all add: collect_def v pickBy_def has_key_Cons has_key_Nil)
qed

text \<open>
  The registry and the repository-host collectors fail, the two others succeed: the call
  resolves with the keys \<^verbatim>\<open>metadata\<close> and \<^verbatim>\<open>source\<close>.
\<close>

theorem collect_partial_failure_witness:
  "\<exists>res. fst (collect
                (ex_collectors (Fulfilled ex_metadata) (Rejected timed_out) (Rejected not_found)
                   (Fulfilled ex_source))
                \<lparr>maintainers = [alice]\<rparr> ex_downloadedPackageJson
                (ex_downloaded ex_downloadedPackageJson ''github'')
                (ex_npmNano (Rejected timed_out)) ex_options)
          = Fulfilled res
      \<and> map_of res ''metadata'' = Some ex_metadata \<and> map_of res ''npm'' = None
      \<and> map_of res ''github'' = None \<and> map_of res ''source'' = Some ex_source"
proof -
  let ?cs = "ex_collectors (Fulfilled ex_metadata) (Rejected timed_out) (Rejected not_found)
               (Fulfilled ex_source)"
  let ?dl = "ex_downloaded ex_downloadedPackageJson ''github''"
  let ?nano = "ex_npmNano (Rejected timed_out)"
  have h: "fst (checkRepositoryOwnership \<lparr>maintainers = [alice]\<rparr> ex_downloadedPackageJson ?dl ?nano)
             = Fulfilled True"
    by (simp add: checkRepositoryOwnership_def ex_defs)
  show ?thesis
    using collect_partial_failure [OF h, of ?cs ex_options]
    by (auto simp: ex_collectors_def ex_metadata_def ex_source_def)
qed

text \<open>
  The claim as stated fails here: the registry collector fails, the repository-host
  collector is applicable and succeeds, with \<^verbatim>\<open>null\<close>, and the result has no
  \<^verbatim>\<open>github\<close> key.
\<close>

theorem collect_exact_keys_counterexample:
  "fst (collect
          (ex_collectors (Fulfilled ex_metadata) (Rejected timed_out) (Fulfilled JNull)
             (Fulfilled ex_source))
          \<lparr>maintainers = [alice]\<rparr> ex_downloadedPackageJson
          (ex_downloaded ex_downloadedPackageJson ''github'') (ex_npmNano (Rejected timed_out))
          ex_options)
     = Fulfilled [(''metadata'', ex_metadata), (''source'', ex_source)]
   \<and> fst (checkRepositoryOwnership \<lparr>maintainers = [alice]\<rparr> ex_downloadedPackageJson
          (ex_downloaded ex_downloadedPackageJson ''github'') (ex_npmNano (Rejected timed_out)))
     = Fulfilled True
   \<and> succeeded
       (github
          (ex_collectors (Fulfilled ex_metadata) (Rejected timed_out) (Fulfilled JNull)
             (Fulfilled ex_source))
          ex_downloadedPackageJson (ex_downloaded ex_downloadedPackageJson ''github'')
          (assign_defaults ex_options))
   \<and> \<not> has_key [(''metadata'', ex_metadata), (''source'', ex_source)] ''github''"
  by (simp add: ex_collect_defs ex_defs)

section \<open>Properties of the package directory resolver\<close>

text \<open>
  C8. The resolver is claimed never to fail: a candidate whose manifest cannot be used
  counts as no match and the search goes on. The code catches the errors of the read
  only. On the tree below the root's manifest names another package, the manifest under
  \<^verbatim>\<open>fixtures\<close> is the JSON text \<^verbatim>\<open>null\<close> and the package \<open>foo\<close> lies behind it:
  reading \<^verbatim>\<open>name\<close> of \<^verbatim>\<open>null\<close> throws after the two \<^verbatim>\<open>catch\<close> handlers, the
  reduction rejects, \<open>packages/foo\<close> is never read and \<^verbatim>\<open>findPackageDir\<close> rejects
  instead of resolving to \<^verbatim>\<open>/tmp/repo/packages/foo\<close>.
\<close>

theorem findPackageDir_null_manifest_rejects:
  "findPackageDir (ex_env (ex_contents (Fulfilled JNull)) ex_files) [(''name'', JStr ''foo'')]
     ''/tmp/repo''
   = (Rejected (TypeError ''Cannot read property name of null''),
      [LoadJsonFile ''/tmp/repo/package.json'', Globby ''/tmp/repo'',
       LoadJsonFile ''/tmp/repo/fixtures/package.json''])"
  by (simp add: ex_fs_defs)

text \<open>
  C9. When the root's own manifest has the target's name, the resolver resolves to the
  root path unchanged, and the only thing it has done is to read that manifest: no
  enumeration of the tree, no other read.
\<close>

theorem findPackageDir_root_match:
  assumes "loadJsonFile env (dir @ ''/package.json'') = Fulfilled m"
    and "m \<noteq> JNull" and "m \<noteq> JUndefined"
    and "strict_eq (obj_get packageJson ''name'') (get_prop m ''name'')"
  shows "findPackageDir env packageJson dir
         = (Fulfilled (JStr dir), [LoadJsonFile (dir @ ''/package.json'')])"
  using assms by (simp add: findPackageDir_def isSamePackage_def js_or_def)

theorem findPackageDir_root_match_witness:
  "findPackageDir (ex_env (ex_contents (Fulfilled JNull)) ex_files) [(''name'', JStr ''monorepo'')]
     ''/tmp/repo''
   = (Fulfilled (JStr ''/tmp/repo''), [LoadJsonFile ''/tmp/repo/package.json''])"
proof -
  let ?m = "JObj [(''name'', JStr ''monorepo''), (''private'', JBool True)]"
  have h1: "loadJsonFile (ex_env (ex_contents (Fulfilled JNull)) ex_files)
              (''/tmp/repo'' @ ''/package.json'') = Fulfilled ?m"
    by (simp add: ex_env_def ex_contents_def)
  have h2: "?m \<noteq> JNull" "?m \<noteq> JUndefined" by simp_all
  have h3: "strict_eq (obj_get [(''name'', JStr ''monorepo'')] ''name'') (get_prop ?m ''name'')"
    by (simp add: obj_get_def)
  show ?thesis using findPackageDir_root_match [OF h1 h2 h3] by simp
qed

end
